theory Spec2Isabelle
  imports Complex_Main
begin

section \<open>Python values and failures\<close>

text \<open>
  The flow graph \<^verbatim>\<open>usrp_echotimer_dual_cw_rcs.py\<close> computes with Python numbers.
  An \<^verbatim>\<open>int\<close> and a \<^verbatim>\<open>float\<close> are both modelled as an exact \<^typ>\<open>real\<close>. Where the
  program computes a double, the model has the exact result, of which the double is the
  nearest one; \<^verbatim>\<open>inf\<close>, \<^verbatim>\<open>nan\<close> and the \<^verbatim>\<open>OverflowError\<close> of \<^verbatim>\<open>float()\<close> on an integer
  beyond the range of a double are not values or outcomes of the model. A statement that
  compares a computed length with an exact one is therefore made only where the doubles
  are exact, and says so in its hypotheses. The arguments a block receives through
  \<^verbatim>\<open>int(...)\<close> or \<^verbatim>\<open>//\<close> on integers are \<^typ>\<open>int\<close>. The tuple \<^verbatim>\<open>freq\<close> is a pair,
  \<^verbatim>\<open>freq[0]\<close> its first and \<^verbatim>\<open>freq[1]\<close> its second component.

  The only exception the arithmetic of the file can raise on numbers is
  \<^verbatim>\<open>ZeroDivisionError\<close>. \<open>ProtocolViolation\<close> is the fatal frame-length mismatch of the
  stream stages.
\<close>

datatype error = ZeroDivisionError | ProtocolViolation

text \<open>\<^verbatim>\<open>a / float(b)\<close> and \<^verbatim>\<open>a / b\<close> with a float operand: true division, as the exact
  quotient.\<close>

definition py_truediv :: "real \<Rightarrow> real \<Rightarrow> error + real" where
  "py_truediv a b = (if b = 0 then Inl ZeroDivisionError else Inr (a / b))"

text \<open>\<^verbatim>\<open>a // b\<close>: floor division.\<close>

definition py_floordiv :: "real \<Rightarrow> real \<Rightarrow> error + int" where
  "py_floordiv a b = (if b = 0 then Inl ZeroDivisionError else Inr \<lfloor>a / b\<rfloor>)"

text \<open>\<^verbatim>\<open>int(x)\<close>: truncation towards zero.\<close>

definition py_int :: "real \<Rightarrow> int" where
  "py_int x = (if 0 \<le> x then \<lfloor>x\<rfloor> else \<lceil>x\<rceil>)"

text \<open>An expression that may raise, followed by the rest of the constructor.\<close>

definition bind_err :: "error + 'a \<Rightarrow> ('a \<Rightarrow> error + 'b) \<Rightarrow> error + 'b" where
  "bind_err r k = (case r of Inl e \<Rightarrow> Inl e | Inr v \<Rightarrow> k v)"


section \<open>The blocks of the flow graph\<close>

text \<open>
  The blocks are objects of GNU Radio and gr-radar. The flow graph only constructs them
  and calls their setters, so each block is the record of the parameters it was given.
  Fixed string and timing arguments (device addresses, antenna names, tag key) are left
  out: no setter and no derived value reads them.
\<close>

record rational_resampler_ccc =
  interpolation :: int
  decimation :: real

record usrp_echotimer_cc =
  et_samp_rate :: real
  et_center_freq :: real
  num_delay_samps :: int
  tx_gain :: real
  rx_gain :: real

record ts_fft_cc =
  fft_packet_len :: int

record signal_generator_cw_c =
  sg_packet_len :: real
  sg_samp_rate :: real
  sg_frequency :: "real list"
  sg_amplitude :: real

record qtgui_time_plot =
  plot_interval :: int
  plot_axis :: "real \<times> real"
  plot_range_time :: real

record find_max_peak_c =
  fmp_samp_rate :: int
  fmp_threshold :: real
  fmp_samp_protect :: int
  fmp_max_freq :: "real \<times> real"
  fmp_cut_max_freq :: bool

record estimator_fsk =
  est_center_freq :: real
  est_delta_freq :: real
  est_push_power :: bool

record tagged_stream_multiply_length =
  scalar :: real

text \<open>
  The setters of the library blocks are not in the repository. Each is taken to store the
  new value of one parameter of the running block, as the spec describes the control
  surface: setters on live pipeline parameters.
\<close>

text \<open>Modelled from the spec: \<^verbatim>\<open>find_max_peak_c.set_threshold\<close>, not in the repository;
  the threshold of the peak detector is mutable at runtime.\<close>

definition find_max_peak_c_set_threshold :: "find_max_peak_c \<Rightarrow> real \<Rightarrow> find_max_peak_c" where
  "find_max_peak_c_set_threshold b v = b\<lparr>fmp_threshold := v\<rparr>"

text \<open>Modelled from the spec: \<^verbatim>\<open>find_max_peak_c.set_samp_protect\<close>, not in the repository;
  the guard width of the peak detector is mutable at runtime.\<close>

definition find_max_peak_c_set_samp_protect :: "find_max_peak_c \<Rightarrow> int \<Rightarrow> find_max_peak_c" where
  "find_max_peak_c_set_samp_protect b v = b\<lparr>fmp_samp_protect := v\<rparr>"

text \<open>Modelled from the spec: \<^verbatim>\<open>usrp_echotimer_cc.set_tx_gain\<close>, not in the repository;
  the runtime setter of the TX gain.\<close>

definition usrp_echotimer_cc_set_tx_gain :: "usrp_echotimer_cc \<Rightarrow> real \<Rightarrow> usrp_echotimer_cc" where
  "usrp_echotimer_cc_set_tx_gain b v = b\<lparr>tx_gain := v\<rparr>"

text \<open>Modelled from the spec: \<^verbatim>\<open>usrp_echotimer_cc.set_rx_gain\<close>, not in the repository;
  the runtime setter of the RX gain.\<close>

definition usrp_echotimer_cc_set_rx_gain :: "usrp_echotimer_cc \<Rightarrow> real \<Rightarrow> usrp_echotimer_cc" where
  "usrp_echotimer_cc_set_rx_gain b v = b\<lparr>rx_gain := v\<rparr>"

text \<open>Modelled from the spec: \<^verbatim>\<open>usrp_echotimer_cc.set_num_delay_samps\<close>, not in the
  repository; the runtime setter of the inter-channel delay in samples.\<close>

definition usrp_echotimer_cc_set_num_delay_samps :: "usrp_echotimer_cc \<Rightarrow> int \<Rightarrow> usrp_echotimer_cc" where
  "usrp_echotimer_cc_set_num_delay_samps b v = b\<lparr>num_delay_samps := v\<rparr>"

text \<open>Modelled from the spec: \<^verbatim>\<open>tagged_stream_multiply_length.set_scalar\<close>, not in the
  repository; it sets the factor by which the length-scaling step rescales a tag.\<close>

definition tagged_stream_multiply_length_set_scalar ::
    "tagged_stream_multiply_length \<Rightarrow> real \<Rightarrow> tagged_stream_multiply_length" where
  "tagged_stream_multiply_length_set_scalar b v = b\<lparr>scalar := v\<rparr>"


section \<open>The top block\<close>

text \<open>
  The object \<^verbatim>\<open>usrp_echotimer_dual_cw_rcs\<close>: its variables (lines 74 to 91 of the source)
  and its parameterised blocks (lines 127 to 152), under the names the source gives them.
\<close>

record top_block =
  samp_rate :: real
  packet_len :: real
  freq_res :: real
  freq :: "real \<times> real"
  center_freq :: real
  v_res :: real
  time_res :: real
  threshold :: real
  samp_protect :: real
  range_time :: real
  range_res :: real
  min_output_buffer :: int
  max_output_buffer :: int
  gain_tx :: real
  gain_rx :: real
  delay_samp :: real
  decim_fac :: real
  amplitude :: real
  rational_resampler_xxx_0_0 :: rational_resampler_ccc
  rational_resampler_xxx_0 :: rational_resampler_ccc
  radar_usrp_echotimer_cc_0 :: usrp_echotimer_cc
  radar_ts_fft_cc_0_0 :: ts_fft_cc
  radar_ts_fft_cc_0 :: ts_fft_cc
  radar_signal_generator_cw_c_0_0 :: signal_generator_cw_c
  radar_signal_generator_cw_c_0 :: signal_generator_cw_c
  radar_qtgui_time_plot_0 :: qtgui_time_plot
  radar_find_max_peak_c_0 :: find_max_peak_c
  radar_estimator_fsk_0 :: estimator_fsk
  blocks_tagged_stream_multiply_length_0_0 :: tagged_stream_multiply_length
  blocks_tagged_stream_multiply_length_0 :: tagged_stream_multiply_length

text \<open>
  The literals of the section "Variables" of the constructor. The constructor takes no
  argument: a configuration is what these literals are edited to.
\<close>

record config =
  cfg_samp_rate :: real
  cfg_packet_len :: real
  cfg_freq :: "real \<times> real"
  cfg_center_freq :: real
  cfg_threshold :: real
  cfg_samp_protect :: real
  cfg_range_time :: real
  cfg_max_output_buffer :: int
  cfg_gain_tx :: real
  cfg_gain_rx :: real
  cfg_delay_samp :: real
  cfg_decim_fac :: real
  cfg_amplitude :: real

definition default_config :: config where
  "default_config =
     \<lparr>cfg_samp_rate = 14250000, cfg_packet_len = 2 ^ 21, cfg_freq = (- 3000000, 3000000),
      cfg_center_freq = 2400000000, cfg_threshold = - 200, cfg_samp_protect = 1,
      cfg_range_time = 60, cfg_max_output_buffer = 0, cfg_gain_tx = 40, cfg_gain_rx = 10,
      cfg_delay_samp = 33, cfg_decim_fac = 2 ^ 7, cfg_amplitude = 1 / 2\<rparr>"

text \<open>
  \<^verbatim>\<open>__init__\<close>, in the order of the source: the derived variables first, then the
  blocks. A division by zero aborts the construction and no object exists.
\<close>

definition construct :: "config \<Rightarrow> error + top_block" where
  "construct c =
     bind_err (py_truediv (cfg_samp_rate c) (cfg_packet_len c)) (\<lambda>freq_res0.
     bind_err (py_truediv (freq_res0 * 300000000 / 2) (cfg_center_freq c)) (\<lambda>v_res0.
     bind_err (py_truediv (cfg_packet_len c) (cfg_samp_rate c)) (\<lambda>time_res0.
     bind_err (py_truediv (300000000 / 2) (snd (cfg_freq c) - fst (cfg_freq c))) (\<lambda>range_res0.
     bind_err (py_floordiv (cfg_packet_len c) (cfg_decim_fac c)) (\<lambda>fft_len.
     bind_err (py_floordiv (cfg_samp_rate c) (cfg_decim_fac c)) (\<lambda>peak_rate.
     bind_err (py_truediv 1 (cfg_decim_fac c)) (\<lambda>length_scalar.
     Inr \<lparr>samp_rate = cfg_samp_rate c,
          packet_len = cfg_packet_len c,
          freq_res = freq_res0,
          freq = cfg_freq c,
          center_freq = cfg_center_freq c,
          v_res = v_res0,
          time_res = time_res0,
          threshold = cfg_threshold c,
          samp_protect = cfg_samp_protect c,
          range_time = cfg_range_time c,
          range_res = range_res0,
          min_output_buffer = py_int (cfg_packet_len c * 2),
          max_output_buffer = cfg_max_output_buffer c,
          gain_tx = cfg_gain_tx c,
          gain_rx = cfg_gain_rx c,
          delay_samp = cfg_delay_samp c,
          decim_fac = cfg_decim_fac c,
          amplitude = cfg_amplitude c,
          rational_resampler_xxx_0_0 = \<lparr>interpolation = 1, decimation = cfg_decim_fac c\<rparr>,
          rational_resampler_xxx_0 = \<lparr>interpolation = 1, decimation = cfg_decim_fac c\<rparr>,
          radar_usrp_echotimer_cc_0 =
            \<lparr>et_samp_rate = cfg_samp_rate c, et_center_freq = cfg_center_freq c,
             num_delay_samps = py_int (cfg_delay_samp c), tx_gain = cfg_gain_tx c,
             rx_gain = cfg_gain_rx c\<rparr>,
          radar_ts_fft_cc_0_0 = \<lparr>fft_packet_len = fft_len\<rparr>,
          radar_ts_fft_cc_0 = \<lparr>fft_packet_len = fft_len\<rparr>,
          radar_signal_generator_cw_c_0_0 =
            \<lparr>sg_packet_len = cfg_packet_len c, sg_samp_rate = cfg_samp_rate c,
             sg_frequency = [snd (cfg_freq c)], sg_amplitude = cfg_amplitude c\<rparr>,
          radar_signal_generator_cw_c_0 =
            \<lparr>sg_packet_len = cfg_packet_len c, sg_samp_rate = cfg_samp_rate c,
             sg_frequency = [fst (cfg_freq c)], sg_amplitude = cfg_amplitude c\<rparr>,
          radar_qtgui_time_plot_0 =
            \<lparr>plot_interval = 100, plot_axis = (0, range_res0),
             plot_range_time = cfg_range_time c\<rparr>,
          radar_find_max_peak_c_0 =
            \<lparr>fmp_samp_rate = peak_rate, fmp_threshold = cfg_threshold c,
             fmp_samp_protect = py_int (cfg_samp_protect c), fmp_max_freq = (- 300, 300),
             fmp_cut_max_freq = True\<rparr>,
          radar_estimator_fsk_0 =
            \<lparr>est_center_freq = cfg_center_freq c,
             est_delta_freq = snd (cfg_freq c) - fst (cfg_freq c), est_push_power = False\<rparr>,
          blocks_tagged_stream_multiply_length_0_0 = \<lparr>scalar = length_scalar\<rparr>,
          blocks_tagged_stream_multiply_length_0 = \<lparr>scalar = length_scalar\<rparr>\<rparr>)))))))"

text \<open>The constructor as the source has it, with the literals of the source.\<close>

definition usrp_echotimer_dual_cw_rcs :: "error + top_block" where
  "usrp_echotimer_dual_cw_rcs = construct default_config"


section \<open>Getters and setters\<close>

text \<open>
  A setter assigns its field first and then recomputes what depends on it. When a
  recomputation raises, the assignments made so far stay in the object: the outcome of
  a call is either the object after a normal return (\<open>Inr\<close>) or the exception together
  with the object as the exception leaves it (\<open>Inl\<close>).
\<close>

type_synonym outcome = "(error \<times> top_block) + top_block"

definition after :: "outcome \<Rightarrow> top_block" where
  "after r = (case r of Inl (e, self) \<Rightarrow> self | Inr self \<Rightarrow> self)"

text \<open>Evaluate an expression in the object \<open>self\<close>; an exception leaves \<open>self\<close> as it is.\<close>

definition evaluate :: "top_block \<Rightarrow> error + 'a \<Rightarrow> ('a \<Rightarrow> outcome) \<Rightarrow> outcome" where
  "evaluate self r k = (case r of Inl e \<Rightarrow> Inl (e, self) | Inr v \<Rightarrow> k v)"

text \<open>A nested call of another setter; its exception propagates.\<close>

definition and_then :: "outcome \<Rightarrow> (top_block \<Rightarrow> outcome) \<Rightarrow> outcome" where
  "and_then r k = (case r of Inl es \<Rightarrow> Inl es | Inr self \<Rightarrow> k self)"

definition get_samp_rate :: "top_block \<Rightarrow> real" where
  "get_samp_rate self = samp_rate self"

definition get_packet_len :: "top_block \<Rightarrow> real" where
  "get_packet_len self = packet_len self"

definition get_freq_res :: "top_block \<Rightarrow> real" where
  "get_freq_res self = freq_res self"

definition get_freq :: "top_block \<Rightarrow> real \<times> real" where
  "get_freq self = freq self"

definition get_center_freq :: "top_block \<Rightarrow> real" where
  "get_center_freq self = center_freq self"

definition get_v_res :: "top_block \<Rightarrow> real" where
  "get_v_res self = v_res self"

definition get_time_res :: "top_block \<Rightarrow> real" where
  "get_time_res self = time_res self"

definition get_threshold :: "top_block \<Rightarrow> real" where
  "get_threshold self = threshold self"

definition get_samp_protect :: "top_block \<Rightarrow> real" where
  "get_samp_protect self = samp_protect self"

definition get_range_time :: "top_block \<Rightarrow> real" where
  "get_range_time self = range_time self"

definition get_range_res :: "top_block \<Rightarrow> real" where
  "get_range_res self = range_res self"

definition get_min_output_buffer :: "top_block \<Rightarrow> int" where
  "get_min_output_buffer self = min_output_buffer self"

definition get_max_output_buffer :: "top_block \<Rightarrow> int" where
  "get_max_output_buffer self = max_output_buffer self"

definition get_gain_tx :: "top_block \<Rightarrow> real" where
  "get_gain_tx self = gain_tx self"

definition get_gain_rx :: "top_block \<Rightarrow> real" where
  "get_gain_rx self = gain_rx self"

definition get_delay_samp :: "top_block \<Rightarrow> real" where
  "get_delay_samp self = delay_samp self"

definition get_decim_fac :: "top_block \<Rightarrow> real" where
  "get_decim_fac self = decim_fac self"

definition get_amplitude :: "top_block \<Rightarrow> real" where
  "get_amplitude self = amplitude self"

text \<open>The setters that only store.\<close>

definition set_v_res :: "top_block \<Rightarrow> real \<Rightarrow> top_block" where
  "set_v_res self v = self\<lparr>v_res := v\<rparr>"

definition set_time_res :: "top_block \<Rightarrow> real \<Rightarrow> top_block" where
  "set_time_res self v = self\<lparr>time_res := v\<rparr>"

definition set_range_time :: "top_block \<Rightarrow> real \<Rightarrow> top_block" where
  "set_range_time self v = self\<lparr>range_time := v\<rparr>"

definition set_range_res :: "top_block \<Rightarrow> real \<Rightarrow> top_block" where
  "set_range_res self v = self\<lparr>range_res := v\<rparr>"

definition set_min_output_buffer :: "top_block \<Rightarrow> int \<Rightarrow> top_block" where
  "set_min_output_buffer self v = self\<lparr>min_output_buffer := v\<rparr>"

definition set_max_output_buffer :: "top_block \<Rightarrow> int \<Rightarrow> top_block" where
  "set_max_output_buffer self v = self\<lparr>max_output_buffer := v\<rparr>"

definition set_amplitude :: "top_block \<Rightarrow> real \<Rightarrow> top_block" where
  "set_amplitude self v = self\<lparr>amplitude := v\<rparr>"

text \<open>The setters that recompute derived variables.\<close>

definition set_freq_res :: "top_block \<Rightarrow> real \<Rightarrow> outcome" where
  "set_freq_res self v =
     (let self1 = self\<lparr>freq_res := v\<rparr> in
      evaluate self1 (py_truediv (freq_res self1 * 300000000 / 2) (center_freq self1))
        (\<lambda>a. Inr (set_v_res self1 a)))"

definition set_samp_rate :: "top_block \<Rightarrow> real \<Rightarrow> outcome" where
  "set_samp_rate self v =
     (let self1 = self\<lparr>samp_rate := v\<rparr> in
      evaluate self1 (py_truediv (samp_rate self1) (packet_len self1)) (\<lambda>a.
      and_then (set_freq_res self1 a) (\<lambda>self2.
      evaluate self2 (py_truediv (packet_len self2) (samp_rate self2)) (\<lambda>b.
      Inr (set_time_res self2 b)))))"

definition set_packet_len :: "top_block \<Rightarrow> real \<Rightarrow> outcome" where
  "set_packet_len self v =
     (let self1 = self\<lparr>packet_len := v\<rparr> in
      evaluate self1 (py_truediv (samp_rate self1) (packet_len self1)) (\<lambda>a.
      and_then (set_freq_res self1 a) (\<lambda>self2.
      let self3 = set_min_output_buffer self2 (py_int (packet_len self2 * 2)) in
      evaluate self3 (py_truediv (packet_len self3) (samp_rate self3)) (\<lambda>b.
      Inr (set_time_res self3 b)))))"

definition set_freq :: "top_block \<Rightarrow> real \<times> real \<Rightarrow> outcome" where
  "set_freq self v =
     (let self1 = self\<lparr>freq := v\<rparr> in
      evaluate self1 (py_truediv (300000000 / 2) (snd (freq self1) - fst (freq self1)))
        (\<lambda>a. Inr (set_range_res self1 a)))"

definition set_center_freq :: "top_block \<Rightarrow> real \<Rightarrow> outcome" where
  "set_center_freq self v =
     (let self1 = self\<lparr>center_freq := v\<rparr> in
      evaluate self1 (py_truediv (freq_res self1 * 300000000 / 2) (center_freq self1))
        (\<lambda>a. Inr (set_v_res self1 a)))"

text \<open>The setters that forward to a block.\<close>

definition set_threshold :: "top_block \<Rightarrow> real \<Rightarrow> top_block" where
  "set_threshold self v =
     (let self1 = self\<lparr>threshold := v\<rparr> in
      self1\<lparr>radar_find_max_peak_c_0 :=
        find_max_peak_c_set_threshold (radar_find_max_peak_c_0 self1) (threshold self1)\<rparr>)"

definition set_samp_protect :: "top_block \<Rightarrow> real \<Rightarrow> top_block" where
  "set_samp_protect self v =
     (let self1 = self\<lparr>samp_protect := v\<rparr> in
      self1\<lparr>radar_find_max_peak_c_0 :=
        find_max_peak_c_set_samp_protect (radar_find_max_peak_c_0 self1)
          (py_int (samp_protect self1))\<rparr>)"

definition set_gain_tx :: "top_block \<Rightarrow> real \<Rightarrow> top_block" where
  "set_gain_tx self v =
     (let self1 = self\<lparr>gain_tx := v\<rparr> in
      self1\<lparr>radar_usrp_echotimer_cc_0 :=
        usrp_echotimer_cc_set_tx_gain (radar_usrp_echotimer_cc_0 self1) (gain_tx self1)\<rparr>)"

definition set_gain_rx :: "top_block \<Rightarrow> real \<Rightarrow> top_block" where
  "set_gain_rx self v =
     (let self1 = self\<lparr>gain_rx := v\<rparr> in
      self1\<lparr>radar_usrp_echotimer_cc_0 :=
        usrp_echotimer_cc_set_rx_gain (radar_usrp_echotimer_cc_0 self1) (gain_rx self1)\<rparr>)"

definition set_delay_samp :: "top_block \<Rightarrow> real \<Rightarrow> top_block" where
  "set_delay_samp self v =
     (let self1 = self\<lparr>delay_samp := v\<rparr> in
      self1\<lparr>radar_usrp_echotimer_cc_0 :=
        usrp_echotimer_cc_set_num_delay_samps (radar_usrp_echotimer_cc_0 self1)
          (py_int (delay_samp self1))\<rparr>)"

definition set_decim_fac :: "top_block \<Rightarrow> real \<Rightarrow> outcome" where
  "set_decim_fac self v =
     (let self1 = self\<lparr>decim_fac := v\<rparr> in
      evaluate self1 (py_truediv 1 (decim_fac self1)) (\<lambda>a.
      let self2 = self1\<lparr>blocks_tagged_stream_multiply_length_0 :=
            tagged_stream_multiply_length_set_scalar
              (blocks_tagged_stream_multiply_length_0 self1) a\<rparr> in
      evaluate self2 (py_truediv 1 (decim_fac self2)) (\<lambda>b.
      Inr (self2\<lparr>blocks_tagged_stream_multiply_length_0_0 :=
            tagged_stream_multiply_length_set_scalar
              (blocks_tagged_stream_multiply_length_0_0 self2) b\<rparr>))))"

text \<open>One call of a setter from outside, and a sequence of calls that stops at the first
  exception.\<close>

datatype setter_call =
    Set_samp_rate real
  | Set_packet_len real
  | Set_freq_res real
  | Set_freq "real \<times> real"
  | Set_center_freq real
  | Set_v_res real
  | Set_time_res real
  | Set_threshold real
  | Set_samp_protect real
  | Set_range_time real
  | Set_range_res real
  | Set_min_output_buffer int
  | Set_max_output_buffer int
  | Set_gain_tx real
  | Set_gain_rx real
  | Set_delay_samp real
  | Set_decim_fac real
  | Set_amplitude real

fun call :: "top_block \<Rightarrow> setter_call \<Rightarrow> outcome" where
  "call self (Set_samp_rate v) = set_samp_rate self v"
| "call self (Set_packet_len v) = set_packet_len self v"
| "call self (Set_freq_res v) = set_freq_res self v"
| "call self (Set_freq v) = set_freq self v"
| "call self (Set_center_freq v) = set_center_freq self v"
| "call self (Set_v_res v) = Inr (set_v_res self v)"
| "call self (Set_time_res v) = Inr (set_time_res self v)"
| "call self (Set_threshold v) = Inr (set_threshold self v)"
| "call self (Set_samp_protect v) = Inr (set_samp_protect self v)"
| "call self (Set_range_time v) = Inr (set_range_time self v)"
| "call self (Set_range_res v) = Inr (set_range_res self v)"
| "call self (Set_min_output_buffer v) = Inr (set_min_output_buffer self v)"
| "call self (Set_max_output_buffer v) = Inr (set_max_output_buffer self v)"
| "call self (Set_gain_tx v) = Inr (set_gain_tx self v)"
| "call self (Set_gain_rx v) = Inr (set_gain_rx self v)"
| "call self (Set_delay_samp v) = Inr (set_delay_samp self v)"
| "call self (Set_decim_fac v) = set_decim_fac self v"
| "call self (Set_amplitude v) = Inr (set_amplitude self v)"

fun run :: "top_block \<Rightarrow> setter_call list \<Rightarrow> outcome" where
  "run self [] = Inr self"
| "run self (c # cs) = and_then (call self c) (\<lambda>self1. run self1 cs)"

text \<open>The four setters of the top-level parameters the resolutions are derived from.\<close>

fun top_level_setter :: "setter_call \<Rightarrow> bool" where
  "top_level_setter (Set_samp_rate v) = True"
| "top_level_setter (Set_packet_len v) = True"
| "top_level_setter (Set_freq v) = True"
| "top_level_setter (Set_center_freq v) = True"
| "top_level_setter c = False"

text \<open>A caller that catches the exception of a call and goes on with the next call: the
  object after the whole sequence.\<close>

fun run_catching :: "top_block \<Rightarrow> setter_call list \<Rightarrow> top_block" where
  "run_catching self [] = self"
| "run_catching self (c # cs) = run_catching (after (call self c)) cs"



section \<open>The stream stages\<close>

text \<open>
  Modelled from the spec: the self-mixer \<^verbatim>\<open>blocks.multiply_conjugate_cc\<close>, a block of
  GNU Radio that is not in the repository. For a received frame and a reference frame of
  the same length it computes, per index, \<open>received[i] * conjugate(reference[i])\<close>; a
  length mismatch is a fatal protocol violation.
\<close>

definition multiply_conjugate_cc :: "complex list \<Rightarrow> complex list \<Rightarrow> error + complex list" where
  "multiply_conjugate_cc received reference =
     (if length received \<noteq> length reference then Inl ProtocolViolation
      else Inr (map2 (\<lambda>x y. x * cnj y) received reference))"




section \<open>What each setter does\<close>

lemmas py_defs = py_truediv_def py_floordiv_def bind_err_def evaluate_def and_then_def after_def

lemmas block_setter_defs =
  find_max_peak_c_set_threshold_def find_max_peak_c_set_samp_protect_def
  usrp_echotimer_cc_set_tx_gain_def usrp_echotimer_cc_set_rx_gain_def
  usrp_echotimer_cc_set_num_delay_samps_def tagged_stream_multiply_length_set_scalar_def

lemmas store_defs =
  set_v_res_def set_time_res_def set_range_time_def set_range_res_def
  set_min_output_buffer_def set_max_output_buffer_def set_amplitude_def

lemmas forward_defs =
  set_threshold_def set_samp_protect_def set_gain_tx_def set_gain_rx_def set_delay_samp_def

lemma set_freq_res_eq:
  "set_freq_res self v =
     (if center_freq self = 0 then Inl (ZeroDivisionError, self\<lparr>freq_res := v\<rparr>)
      else Inr (self\<lparr>freq_res := v, v_res := v * 300000000 / 2 / center_freq self\<rparr>))"
  by (simp add: set_freq_res_def py_defs store_defs Let_def)

lemma set_center_freq_eq:
  "set_center_freq self v =
     (if v = 0 then Inl (ZeroDivisionError, self\<lparr>center_freq := 0\<rparr>)
      else Inr (self\<lparr>center_freq := v, v_res := freq_res self * 300000000 / 2 / v\<rparr>))"
  by (simp add: set_center_freq_def py_defs store_defs Let_def)

lemma set_freq_eq:
  "set_freq self f =
     (if snd f - fst f = 0 then Inl (ZeroDivisionError, self\<lparr>freq := f\<rparr>)
      else Inr (self\<lparr>freq := f, range_res := 300000000 / 2 / (snd f - fst f)\<rparr>))"
  by (simp add: set_freq_def py_defs store_defs Let_def)

lemma set_samp_rate_eq:
  "set_samp_rate self v =
     (if packet_len self = 0 then Inl (ZeroDivisionError, self\<lparr>samp_rate := v\<rparr>)
      else if center_freq self = 0
        then Inl (ZeroDivisionError, self\<lparr>samp_rate := v, freq_res := v / packet_len self\<rparr>)
      else if v = 0
        then Inl (ZeroDivisionError,
               self\<lparr>samp_rate := v, freq_res := v / packet_len self,
                    v_res := v / packet_len self * 300000000 / 2 / center_freq self\<rparr>)
      else Inr (self\<lparr>samp_rate := v, freq_res := v / packet_len self,
                    v_res := v / packet_len self * 300000000 / 2 / center_freq self,
                    time_res := packet_len self / v\<rparr>))"
  by (simp add: set_samp_rate_def set_freq_res_eq py_defs store_defs Let_def)

lemma set_packet_len_eq:
  "set_packet_len self v =
     (if v = 0 then Inl (ZeroDivisionError, self\<lparr>packet_len := v\<rparr>)
      else if center_freq self = 0
        then Inl (ZeroDivisionError, self\<lparr>packet_len := v, freq_res := samp_rate self / v\<rparr>)
      else if samp_rate self = 0
        then Inl (ZeroDivisionError,
               self\<lparr>packet_len := v, freq_res := samp_rate self / v,
                    v_res := samp_rate self / v * 300000000 / 2 / center_freq self,
                    min_output_buffer := py_int (v * 2)\<rparr>)
      else Inr (self\<lparr>packet_len := v, freq_res := samp_rate self / v,
                    v_res := samp_rate self / v * 300000000 / 2 / center_freq self,
                    min_output_buffer := py_int (v * 2),
                    time_res := v / samp_rate self\<rparr>))"
  by (simp add: set_packet_len_def set_freq_res_eq py_defs store_defs Let_def)

lemma set_decim_fac_eq:
  "set_decim_fac self v =
     (if v = 0 then Inl (ZeroDivisionError, self\<lparr>decim_fac := v\<rparr>)
      else Inr (self\<lparr>decim_fac := v,
                    blocks_tagged_stream_multiply_length_0 :=
                      (blocks_tagged_stream_multiply_length_0 self)\<lparr>scalar := 1 / v\<rparr>,
                    blocks_tagged_stream_multiply_length_0_0 :=
                      (blocks_tagged_stream_multiply_length_0_0 self)\<lparr>scalar := 1 / v\<rparr>\<rparr>))"
  by (simp add: set_decim_fac_def py_defs block_setter_defs Let_def)

lemmas setter_eqs = set_freq_res_eq set_center_freq_eq set_freq_eq set_samp_rate_eq
  set_packet_len_eq set_decim_fac_eq


lemma construct_nonzero:
  assumes "construct c = Inr self"
  shows "cfg_packet_len c \<noteq> 0" and "cfg_center_freq c \<noteq> 0" and "cfg_samp_rate c \<noteq> 0"
    and "snd (cfg_freq c) \<noteq> fst (cfg_freq c)" and "cfg_decim_fac c \<noteq> 0"
  using assms by (auto simp: construct_def py_defs split: if_splits)

lemma construct_variables:
  assumes "construct c = Inr self"
  shows "samp_rate self = cfg_samp_rate c" and "packet_len self = cfg_packet_len c"
    and "freq self = cfg_freq c" and "center_freq self = cfg_center_freq c"
    and "decim_fac self = cfg_decim_fac c" and "amplitude self = cfg_amplitude c"
    and "freq_res self = cfg_samp_rate c / cfg_packet_len c"
    and "v_res self = cfg_samp_rate c / cfg_packet_len c * 300000000 / 2 / cfg_center_freq c"
    and "time_res self = cfg_packet_len c / cfg_samp_rate c"
    and "range_res self = 300000000 / 2 / (snd (cfg_freq c) - fst (cfg_freq c))"
  using assms by (auto simp: construct_def py_defs split: if_splits)

lemma construct_blocks:
  assumes "construct c = Inr self"
  shows "rational_resampler_xxx_0 self = \<lparr>interpolation = 1, decimation = cfg_decim_fac c\<rparr>"
    and "rational_resampler_xxx_0_0 self = \<lparr>interpolation = 1, decimation = cfg_decim_fac c\<rparr>"
    and "blocks_tagged_stream_multiply_length_0 self = \<lparr>scalar = 1 / cfg_decim_fac c\<rparr>"
    and "blocks_tagged_stream_multiply_length_0_0 self = \<lparr>scalar = 1 / cfg_decim_fac c\<rparr>"
    and "radar_ts_fft_cc_0 self = \<lparr>fft_packet_len = \<lfloor>cfg_packet_len c / cfg_decim_fac c\<rfloor>\<rparr>"
    and "radar_ts_fft_cc_0_0 self = \<lparr>fft_packet_len = \<lfloor>cfg_packet_len c / cfg_decim_fac c\<rfloor>\<rparr>"
    and "radar_signal_generator_cw_c_0 self =
           \<lparr>sg_packet_len = cfg_packet_len c, sg_samp_rate = cfg_samp_rate c,
            sg_frequency = [fst (cfg_freq c)], sg_amplitude = cfg_amplitude c\<rparr>"
    and "radar_signal_generator_cw_c_0_0 self =
           \<lparr>sg_packet_len = cfg_packet_len c, sg_samp_rate = cfg_samp_rate c,
            sg_frequency = [snd (cfg_freq c)], sg_amplitude = cfg_amplitude c\<rparr>"
    and "fmp_max_freq (radar_find_max_peak_c_0 self) = (- 300, 300)"
  using assms by (auto simp: construct_def py_defs split: if_splits)

lemma default_constructs:
  "construct default_config = Inr (projr usrp_echotimer_dual_cw_rcs)"
  by (simp add: usrp_echotimer_dual_cw_rcs_def construct_def default_config_def py_defs)

lemma default_flow_graph:
  "usrp_echotimer_dual_cw_rcs =
     Inr \<lparr>samp_rate = 14250000, packet_len = 2097152, freq_res = 14250000 / 2097152,
      freq = (- 3000000, 3000000), center_freq = 2400000000,
      v_res = 14250000 / 2097152 * 300000000 / 2 / 2400000000,
      time_res = 2097152 / 14250000, threshold = - 200, samp_protect = 1, range_time = 60,
      range_res = 25, min_output_buffer = 4194304, max_output_buffer = 0, gain_tx = 40,
      gain_rx = 10, delay_samp = 33, decim_fac = 128, amplitude = 1 / 2,
      rational_resampler_xxx_0_0 = \<lparr>interpolation = 1, decimation = 128\<rparr>,
      rational_resampler_xxx_0 = \<lparr>interpolation = 1, decimation = 128\<rparr>,
      radar_usrp_echotimer_cc_0 =
        \<lparr>et_samp_rate = 14250000, et_center_freq = 2400000000, num_delay_samps = 33,
         tx_gain = 40, rx_gain = 10\<rparr>,
      radar_ts_fft_cc_0_0 = \<lparr>fft_packet_len = 16384\<rparr>,
      radar_ts_fft_cc_0 = \<lparr>fft_packet_len = 16384\<rparr>,
      radar_signal_generator_cw_c_0_0 =
        \<lparr>sg_packet_len = 2097152, sg_samp_rate = 14250000, sg_frequency = [3000000],
         sg_amplitude = 1 / 2\<rparr>,
      radar_signal_generator_cw_c_0 =
        \<lparr>sg_packet_len = 2097152, sg_samp_rate = 14250000, sg_frequency = [- 3000000],
         sg_amplitude = 1 / 2\<rparr>,
      radar_qtgui_time_plot_0 =
        \<lparr>plot_interval = 100, plot_axis = (0, 25), plot_range_time = 60\<rparr>,
      radar_find_max_peak_c_0 =
        \<lparr>fmp_samp_rate = 111328, fmp_threshold = - 200, fmp_samp_protect = 1,
         fmp_max_freq = (- 300, 300), fmp_cut_max_freq = True\<rparr>,
      radar_estimator_fsk_0 =
        \<lparr>est_center_freq = 2400000000, est_delta_freq = 6000000, est_push_power = False\<rparr>,
      blocks_tagged_stream_multiply_length_0_0 = \<lparr>scalar = 1 / 128\<rparr>,
      blocks_tagged_stream_multiply_length_0 = \<lparr>scalar = 1 / 128\<rparr>\<rparr>"
  by (simp add: usrp_echotimer_dual_cw_rcs_def construct_def default_config_def py_defs
      py_int_def)

lemmas default_object = arg_cong [where f = projr, OF default_flow_graph, unfolded sum.sel]



section \<open>Frame length through the decimator\<close>







section \<open>The dependency chain of the resolutions\<close>

lemma top_level_call_chain:
  assumes "top_level_setter c" and "call self c = Inr self1"
    and "freq_res self = samp_rate self / packet_len self
       \<and> time_res self = packet_len self / samp_rate self
       \<and> v_res self = freq_res self * 300000000 / 2 / center_freq self
       \<and> range_res self = 300000000 / 2 / (snd (freq self) - fst (freq self))
       \<and> packet_len self \<noteq> 0 \<and> samp_rate self \<noteq> 0 \<and> center_freq self \<noteq> 0
       \<and> snd (freq self) \<noteq> fst (freq self)"
  shows "freq_res self1 = samp_rate self1 / packet_len self1
       \<and> time_res self1 = packet_len self1 / samp_rate self1
       \<and> v_res self1 = freq_res self1 * 300000000 / 2 / center_freq self1
       \<and> range_res self1 = 300000000 / 2 / (snd (freq self1) - fst (freq self1))
       \<and> packet_len self1 \<noteq> 0 \<and> samp_rate self1 \<noteq> 0 \<and> center_freq self1 \<noteq> 0
       \<and> snd (freq self1) \<noteq> fst (freq self1)"
proof (cases c)
  case (Set_samp_rate v)
  then show ?thesis
    using assms(2,3) by (auto simp: set_samp_rate_eq split: if_splits)
next
  case (Set_packet_len v)
  then show ?thesis
    using assms(2,3) by (auto simp: set_packet_len_eq split: if_splits)
next
  case (Set_freq f)
  then show ?thesis
    using assms(2,3) by (auto simp: set_freq_eq split: if_splits)
next
  case (Set_center_freq v)
  then show ?thesis
    using assms(2,3) by (auto simp: set_center_freq_eq split: if_splits)
qed (use assms(1) in simp_all)

lemma top_level_run_chain:
  assumes "list_all top_level_setter cs" and "run self cs = Inr self1"
    and "freq_res self = samp_rate self / packet_len self
       \<and> time_res self = packet_len self / samp_rate self
       \<and> v_res self = freq_res self * 300000000 / 2 / center_freq self
       \<and> range_res self = 300000000 / 2 / (snd (freq self) - fst (freq self))
       \<and> packet_len self \<noteq> 0 \<and> samp_rate self \<noteq> 0 \<and> center_freq self \<noteq> 0
       \<and> snd (freq self) \<noteq> fst (freq self)"
  shows "freq_res self1 = samp_rate self1 / packet_len self1
       \<and> time_res self1 = packet_len self1 / samp_rate self1
       \<and> v_res self1 = freq_res self1 * 300000000 / 2 / center_freq self1
       \<and> range_res self1 = 300000000 / 2 / (snd (freq self1) - fst (freq self1))
       \<and> packet_len self1 \<noteq> 0 \<and> samp_rate self1 \<noteq> 0 \<and> center_freq self1 \<noteq> 0
       \<and> snd (freq self1) \<noteq> fst (freq self1)"
  using assms
proof (induction cs arbitrary: self)
  case Nil
  then show ?case by simp
next
  case (Cons c cs)
  from Cons.prems(2) obtain self2 where
    step: "call self c = Inr self2" and rest: "run self2 cs = Inr self1"
    by (auto simp: and_then_def split: sum.splits)
  from Cons.prems(1) have c: "top_level_setter c" and cs: "list_all top_level_setter cs"
    by simp_all
  show ?case
    by (rule Cons.IH [OF cs rest]) (rule top_level_call_chain [OF c step Cons.prems(3)])
qed

text \<open>
  Claim C2, as the code has it. After construction and after any sequence of calls of
  \<open>set_samp_rate\<close>, \<open>set_packet_len\<close>, \<open>set_freq\<close> and \<open>set_center_freq\<close> in which every call
  returns, the derived values satisfy together, written as the source computes them:
  \<open>freq_res = samp_rate / packet_len\<close>, \<open>time_res = packet_len / samp_rate\<close>,
  \<open>v_res = freq_res * 3e8 / 2 / center_freq\<close> and \<open>range_res = 3e8 / 2 / (freq[1] - freq[0])\<close>,
  and no divisor in them is zero. The empty sequence is the state after construction.
  Nothing is promised once a call has raised: the setter leaves what it assigned before
  the exception, and the calls after it recompute their own values only.
\<close>

theorem resolutions_consistent_after_setters:
  assumes "construct c = Inr self0" and "list_all top_level_setter cs"
    and "run self0 cs = Inr self"
  shows "freq_res self = samp_rate self / packet_len self
       \<and> time_res self = packet_len self / samp_rate self
       \<and> v_res self = freq_res self * 300000000 / 2 / center_freq self
       \<and> range_res self = 300000000 / 2 / (snd (freq self) - fst (freq self))
       \<and> packet_len self \<noteq> 0 \<and> samp_rate self \<noteq> 0 \<and> center_freq self \<noteq> 0
       \<and> snd (freq self) \<noteq> fst (freq self)"
proof (rule top_level_run_chain [OF assms(2,3)])
  show "freq_res self0 = samp_rate self0 / packet_len self0
       \<and> time_res self0 = packet_len self0 / samp_rate self0
       \<and> v_res self0 = freq_res self0 * 300000000 / 2 / center_freq self0
       \<and> range_res self0 = 300000000 / 2 / (snd (freq self0) - fst (freq self0))
       \<and> packet_len self0 \<noteq> 0 \<and> samp_rate self0 \<noteq> 0 \<and> center_freq self0 \<noteq> 0
       \<and> snd (freq self0) \<noteq> fst (freq self0)"
    using construct_variables [OF assms(1)] construct_nonzero [OF assms(1)]
    by simp
qed

theorem resolutions_consistent_after_setters_witness:
  "list_all top_level_setter
     [Set_samp_rate 10000000, Set_packet_len 1024, Set_freq (- 1000000, 2000000),
      Set_center_freq 5000000000]
   \<and> (case run (projr usrp_echotimer_dual_cw_rcs)
         [Set_samp_rate 10000000, Set_packet_len 1024, Set_freq (- 1000000, 2000000),
          Set_center_freq 5000000000] of
        Inl es \<Rightarrow> False
      | Inr self \<Rightarrow>
          freq_res self = 78125 / 8 \<and> freq_res self = samp_rate self / packet_len self
          \<and> time_res self = 64 / 625000 \<and> time_res self = packet_len self / samp_rate self
          \<and> v_res self = 9375 / 32
          \<and> v_res self = freq_res self * 300000000 / 2 / center_freq self
          \<and> range_res self = 50
          \<and> range_res self = 300000000 / 2 / (snd (freq self) - fst (freq self)))"
proof -
  let ?cs = "[Set_samp_rate 10000000, Set_packet_len 1024, Set_freq (- 1000000, 2000000),
              Set_center_freq 5000000000]"
  have calls: "list_all top_level_setter ?cs"
    by simp
  obtain self where returns: "run (projr usrp_echotimer_dual_cw_rcs) ?cs = Inr self"
    by (simp add: default_object setter_eqs and_then_def)
  have nums: "freq_res self = 78125 / 8 \<and> time_res self = 64 / 625000
      \<and> v_res self = 9375 / 32 \<and> range_res self = 50"
    using returns by (auto simp: default_object setter_eqs and_then_def)
  show ?thesis
    unfolding returns sum.case
    using resolutions_consistent_after_setters [OF default_constructs calls returns]
      calls nums by blast
qed

text \<open>
  The claim as the spec states it fails for a sequence in which a call raises. On the
  default flow graph \<open>set_center_freq(0)\<close> raises after assigning \<open>center_freq\<close>; then
  \<open>set_samp_rate(1e7)\<close> assigns \<open>samp_rate\<close> and \<open>freq_res\<close> and raises in \<open>set_freq_res\<close>,
  before \<open>time_res\<close> is recomputed; then \<open>set_center_freq(5e9)\<close> returns. No divisor is zero
  in the object it returns with, and \<open>time_res\<close> is still the \<open>2097152 / 14250000\<close> of the
  construction, not \<open>packet_len / samp_rate\<close>.
\<close>

theorem raising_setter_leaves_time_res_stale:
  "(case usrp_echotimer_dual_cw_rcs of
      Inl e \<Rightarrow> False
    | Inr self0 \<Rightarrow>
        (case set_center_freq self0 0 of
           Inr self1 \<Rightarrow> False
         | Inl (e1, self1) \<Rightarrow>
             e1 = ZeroDivisionError
             \<and> (case set_samp_rate self1 10000000 of
                  Inr self2 \<Rightarrow> False
                | Inl (e2, self2) \<Rightarrow>
                    e2 = ZeroDivisionError
                    \<and> (case set_center_freq self2 5000000000 of
                         Inl es \<Rightarrow> False
                       | Inr self3 \<Rightarrow>
                           self3 = run_catching self0
                             [Set_center_freq 0, Set_samp_rate 10000000,
                              Set_center_freq 5000000000]
                           \<and> samp_rate self3 = 10000000 \<and> packet_len self3 = 2097152
                           \<and> center_freq self3 = 5000000000
                           \<and> freq self3 = (- 3000000, 3000000)
                           \<and> time_res self3 = 2097152 / 14250000
                           \<and> time_res self3 \<noteq> packet_len self3 / samp_rate self3))))"
  by (simp add: default_flow_graph set_center_freq_eq set_samp_rate_eq after_def)


section \<open>The default configuration\<close>

text \<open>
  Claim C3. With the literals of the source (\<open>samp_rate = 14.25e6\<close>, \<open>packet_len = 2**21\<close>,
  \<open>decim_fac = 2**7\<close>, \<open>freq = (-3e6, 3e6)\<close>, \<open>center_freq = 2.4e9\<close>) the constructor returns,
  the computed \<open>range_res\<close> is \<open>3e8 / (2 * 6e6) = 25\<close>, and the computed \<open>time_res\<close> is
  \<open>packet_len / samp_rate = 2097152 / 14250000\<close>, which is 0.147 to three decimals.
\<close>

theorem default_resolutions:
  "cfg_samp_rate default_config = 14250000 \<and> cfg_packet_len default_config = 2 ^ 21
   \<and> cfg_decim_fac default_config = 2 ^ 7 \<and> cfg_freq default_config = (- 3000000, 3000000)
   \<and> cfg_center_freq default_config = 2400000000
   \<and> (case usrp_echotimer_dual_cw_rcs of
        Inl e \<Rightarrow> False
      | Inr self \<Rightarrow>
          range_res self = 300000000 / (2 * 6000000) \<and> range_res self = 25
          \<and> time_res self = packet_len self / samp_rate self
          \<and> time_res self = 2097152 / 14250000
          \<and> \<bar>time_res self - 147 / 1000\<bar> < 1 / 2000)"
  by (simp add: usrp_echotimer_dual_cw_rcs_def construct_def default_config_def py_defs)


section \<open>Getters after setters\<close>

text \<open>
  Claim C9. For each of \<open>samp_rate\<close>, \<open>packet_len\<close>, \<open>freq\<close>, \<open>center_freq\<close>, \<open>threshold\<close>,
  \<open>samp_protect\<close>, \<open>gain_tx\<close>, \<open>gain_rx\<close>, \<open>delay_samp\<close>, \<open>decim_fac\<close>, \<open>amplitude\<close> and
  \<open>range_time\<close>, and every value \<open>v\<close>, the getter called after the setter returns \<open>v\<close>. The
  field is assigned before anything is recomputed, so this holds of the object also when
  the setter raised.
\<close>

theorem getter_after_setter:
  "get_samp_rate (after (set_samp_rate self v)) = v
   \<and> get_packet_len (after (set_packet_len self v)) = v
   \<and> get_freq (after (set_freq self f)) = f
   \<and> get_center_freq (after (set_center_freq self v)) = v
   \<and> get_threshold (set_threshold self v) = v
   \<and> get_samp_protect (set_samp_protect self v) = v
   \<and> get_gain_tx (set_gain_tx self v) = v
   \<and> get_gain_rx (set_gain_rx self v) = v
   \<and> get_delay_samp (set_delay_samp self v) = v
   \<and> get_decim_fac (after (set_decim_fac self v)) = v
   \<and> get_amplitude (set_amplitude self v) = v
   \<and> get_range_time (set_range_time self v) = v"
  by (simp add: setter_eqs after_def forward_defs store_defs Let_def
      get_samp_rate_def get_packet_len_def get_freq_def get_center_freq_def get_threshold_def
      get_samp_protect_def get_gain_tx_def get_gain_rx_def get_delay_samp_def
      get_decim_fac_def get_amplitude_def get_range_time_def)


section \<open>The control surface\<close>

text \<open>
  Claim C4, as the code has it. Of the seven setters of the control surface,
  \<open>set_gain_tx\<close>, \<open>set_gain_rx\<close>, \<open>set_delay_samp\<close>, \<open>set_threshold\<close> and \<open>set_samp_protect\<close>
  store the value and pass it (the delay and the guard count cut to an integer) to the
  running block; \<open>set_decim_fac\<close> stores the value and sets the scalar of both
  length-scaling blocks to \<open>1 / decim_fac\<close>, raising \<open>ZeroDivisionError\<close> for 0 with only
  the field assigned; \<open>set_amplitude\<close> stores the value and touches no block. Nothing else
  of the object changes: the decimation of the resamplers, the FFT size, the rate of the
  peak detector and the amplitude of the generators stay as constructed, and no
  resolution is recomputed, none depending on these parameters.
\<close>

theorem control_surface_setters:
  "set_gain_tx self v =
     self\<lparr>gain_tx := v,
          radar_usrp_echotimer_cc_0 := (radar_usrp_echotimer_cc_0 self)\<lparr>tx_gain := v\<rparr>\<rparr>
   \<and> set_gain_rx self v =
     self\<lparr>gain_rx := v,
          radar_usrp_echotimer_cc_0 := (radar_usrp_echotimer_cc_0 self)\<lparr>rx_gain := v\<rparr>\<rparr>
   \<and> set_delay_samp self v =
     self\<lparr>delay_samp := v,
          radar_usrp_echotimer_cc_0 :=
            (radar_usrp_echotimer_cc_0 self)\<lparr>num_delay_samps := py_int v\<rparr>\<rparr>
   \<and> set_threshold self v =
     self\<lparr>threshold := v,
          radar_find_max_peak_c_0 := (radar_find_max_peak_c_0 self)\<lparr>fmp_threshold := v\<rparr>\<rparr>
   \<and> set_samp_protect self v =
     self\<lparr>samp_protect := v,
          radar_find_max_peak_c_0 :=
            (radar_find_max_peak_c_0 self)\<lparr>fmp_samp_protect := py_int v\<rparr>\<rparr>
   \<and> set_amplitude self v = self\<lparr>amplitude := v\<rparr>
   \<and> set_decim_fac self v =
     (if v = 0 then Inl (ZeroDivisionError, self\<lparr>decim_fac := v\<rparr>)
      else Inr (self\<lparr>decim_fac := v,
                    blocks_tagged_stream_multiply_length_0 :=
                      (blocks_tagged_stream_multiply_length_0 self)\<lparr>scalar := 1 / v\<rparr>,
                    blocks_tagged_stream_multiply_length_0_0 :=
                      (blocks_tagged_stream_multiply_length_0_0 self)\<lparr>scalar := 1 / v\<rparr>\<rparr>))"
  by (simp add: forward_defs block_setter_defs store_defs set_decim_fac_eq Let_def)

text \<open>
  The claim as the spec states it fails on the default flow graph: after
  \<open>set_amplitude(0.9)\<close> both signal generators still run with amplitude 0.5, and after
  \<open>set_decim_fac(64)\<close> both resamplers still decimate by 128 and both FFT stages still
  expect 16384 samples, while the length tags are scaled by 1/64.
\<close>

theorem set_amplitude_and_decim_fac_miss_blocks:
  "(case usrp_echotimer_dual_cw_rcs of
      Inl e \<Rightarrow> False
    | Inr self \<Rightarrow>
        amplitude (set_amplitude self (9 / 10)) = 9 / 10
        \<and> sg_amplitude (radar_signal_generator_cw_c_0 (set_amplitude self (9 / 10))) = 1 / 2
        \<and> sg_amplitude (radar_signal_generator_cw_c_0_0 (set_amplitude self (9 / 10))) = 1 / 2
        \<and> (case set_decim_fac self 64 of
             Inl es \<Rightarrow> False
           | Inr self1 \<Rightarrow>
               decim_fac self1 = 64
               \<and> decimation (rational_resampler_xxx_0 self1) = 128
               \<and> decimation (rational_resampler_xxx_0_0 self1) = 128
               \<and> fft_packet_len (radar_ts_fft_cc_0 self1) = 16384
               \<and> fft_packet_len (radar_ts_fft_cc_0_0 self1) = 16384
               \<and> scalar (blocks_tagged_stream_multiply_length_0 self1) = 1 / 64
               \<and> scalar (blocks_tagged_stream_multiply_length_0_0 self1) = 1 / 64))"
  by (simp add: default_flow_graph set_decim_fac_eq store_defs)


section \<open>What moves the range resolution\<close>

lemma call_keeps_range_res:
  assumes "\<And>f. c \<noteq> Set_freq f" and "\<And>r. c \<noteq> Set_range_res r"
  shows "range_res (after (call self c)) = range_res self"
  using assms
  by (cases c)
    (auto simp: setter_eqs after_def forward_defs block_setter_defs store_defs Let_def)

text \<open>
  Claim C5. \<open>set_center_freq\<close> with any value leaves \<open>range_res\<close> as it was: it assigns
  \<open>center_freq\<close> and recomputes \<open>v_res\<close> only (for 0 the recomputation raises and only
  \<open>center_freq\<close> is assigned). \<open>range_res\<close> is written by \<open>set_range_res\<close> and by \<open>set_freq\<close>,
  and by no other setter.
\<close>

theorem set_center_freq_keeps_range_res:
  assumes "\<And>f. c \<noteq> Set_freq f" and "\<And>r. c \<noteq> Set_range_res r"
  shows "range_res (after (set_center_freq self v)) = range_res self
       \<and> set_center_freq self v =
           (if v = 0 then Inl (ZeroDivisionError, self\<lparr>center_freq := 0\<rparr>)
            else Inr (self\<lparr>center_freq := v, v_res := freq_res self * 300000000 / 2 / v\<rparr>))
       \<and> range_res (after (call self c)) = range_res self
       \<and> range_res (set_range_res self r) = r
       \<and> set_freq self f =
           (if snd f - fst f = 0 then Inl (ZeroDivisionError, self\<lparr>freq := f\<rparr>)
            else Inr (self\<lparr>freq := f, range_res := 300000000 / 2 / (snd f - fst f)\<rparr>))"
  using call_keeps_range_res [OF assms, of self]
  by (simp add: set_center_freq_eq set_freq_eq after_def store_defs)

theorem set_center_freq_keeps_range_res_witness:
  "range_res (after (set_center_freq (projr usrp_echotimer_dual_cw_rcs) 5000000000)) = 25
   \<and> v_res (after (set_center_freq (projr usrp_echotimer_dual_cw_rcs) 5000000000)) =
       14250000 / 2097152 * 300000000 / 2 / 5000000000
   \<and> range_res (after (call (projr usrp_echotimer_dual_cw_rcs) (Set_samp_rate 10000000))) = 25
   \<and> range_res (set_range_res (projr usrp_echotimer_dual_cw_rcs) 30) = 30
   \<and> range_res (after (set_freq (projr usrp_echotimer_dual_cw_rcs) (- 1000000, 2000000))) = 50"
proof -
  have a: "\<And>f. Set_samp_rate 10000000 \<noteq> Set_freq f"
    and b: "\<And>r. Set_samp_rate 10000000 \<noteq> Set_range_res r"
    by simp_all
  have r: "range_res (projr usrp_echotimer_dual_cw_rcs) = 25"
    and fr: "freq_res (projr usrp_echotimer_dual_cw_rcs) = 14250000 / 2097152"
    by (simp_all add: default_object)
  note t = set_center_freq_keeps_range_res [OF a b, of "projr usrp_echotimer_dual_cw_rcs"
      5000000000 30 "(- 1000000, 2000000)"]
  have c1: "range_res (after (set_center_freq (projr usrp_echotimer_dual_cw_rcs) 5000000000)) = 25"
    using t r by (simp add: after_def)
  have c2: "v_res (after (set_center_freq (projr usrp_echotimer_dual_cw_rcs) 5000000000)) =
       14250000 / 2097152 * 300000000 / 2 / 5000000000"
    using t fr by (simp add: after_def)
  have c3: "range_res (after (call (projr usrp_echotimer_dual_cw_rcs) (Set_samp_rate 10000000))) = 25"
    using t r by (simp add: after_def)
  have c4: "range_res (set_range_res (projr usrp_echotimer_dual_cw_rcs) 30) = 30"
    using t by simp
  have c5: "range_res (after (set_freq (projr usrp_echotimer_dual_cw_rcs) (- 1000000, 2000000))) = 50"
    using t by (simp add: after_def)
  show ?thesis
    using c1 c2 c3 c4 c5 by blast
qed


section \<open>Tuning the peak detector at run time\<close>

lemma call_keeps_search_window:
  "fmp_max_freq (radar_find_max_peak_c_0 (after (call self c))) =
     fmp_max_freq (radar_find_max_peak_c_0 self)"
  by (cases c)
    (simp_all add: setter_eqs after_def forward_defs block_setter_defs store_defs Let_def)

lemma run_keeps_search_window:
  "fmp_max_freq (radar_find_max_peak_c_0 (after (run self cs))) =
     fmp_max_freq (radar_find_max_peak_c_0 self)"
proof (induction cs arbitrary: self)
  case Nil
  show ?case by (simp add: after_def)
next
  case (Cons c cs)
  show ?case
  proof (cases "call self c")
    case (Inl es)
    then have "after (run self (c # cs)) = after (call self c)"
      by (simp add: and_then_def)
    then show ?thesis
      by (simp add: call_keeps_search_window)
  next
    case (Inr self1)
    then have "after (run self (c # cs)) = after (run self1 cs)"
      and "self1 = after (call self c)"
      by (simp_all add: and_then_def after_def)
    then show ?thesis
      using Cons.IH [of self1] by (simp add: call_keeps_search_window)
  qed
qed

text \<open>
  Claim C6, as the code has it. The magnitude threshold and the guard width each have a
  setter, \<open>set_threshold\<close> and \<open>set_samp_protect\<close>, that updates the running peak detector
  (the guard width cut to an integer). The search window has none: it is the literal
  \<open>[-300, 300]\<close> of the constructor, and it stays so after every sequence of setter calls.
\<close>

theorem peak_detector_runtime_parameters:
  assumes "construct c = Inr self0"
  shows "fmp_threshold (radar_find_max_peak_c_0 (set_threshold self v)) = v
       \<and> fmp_samp_protect (radar_find_max_peak_c_0 (set_samp_protect self v)) = py_int v
       \<and> fmp_max_freq (radar_find_max_peak_c_0 self0) = (- 300, 300)
       \<and> fmp_max_freq (radar_find_max_peak_c_0 (after (run self0 cs))) = (- 300, 300)"
  using construct_blocks(9) [OF assms]
  by (simp add: run_keeps_search_window forward_defs block_setter_defs Let_def)

theorem peak_detector_runtime_parameters_witness:
  "fmp_threshold (radar_find_max_peak_c_0 (set_threshold (projr usrp_echotimer_dual_cw_rcs) (- 150)))
     = - 150
   \<and> fmp_samp_protect
       (radar_find_max_peak_c_0 (set_samp_protect (projr usrp_echotimer_dual_cw_rcs) (5 / 2))) = 2
   \<and> fmp_max_freq (radar_find_max_peak_c_0 (projr usrp_echotimer_dual_cw_rcs)) = (- 300, 300)
   \<and> fmp_max_freq (radar_find_max_peak_c_0 (after (run (projr usrp_echotimer_dual_cw_rcs)
       [Set_threshold (- 150), Set_samp_protect (5 / 2), Set_samp_rate 10000000])))
     = (- 300, 300)"
proof -
  have "py_int (5 / 2) = 2"
    by (simp add: py_int_def)
  then show ?thesis
    using peak_detector_runtime_parameters [OF default_constructs,
        of "projr usrp_echotimer_dual_cw_rcs" "- 150"
          "[Set_threshold (- 150), Set_samp_protect (5 / 2), Set_samp_rate 10000000]"]
      peak_detector_runtime_parameters [OF default_constructs,
        of "projr usrp_echotimer_dual_cw_rcs" "5 / 2" "[]"]
    by simp
qed

text \<open>
  The claim as the spec states it fails for the search window: no call of a setter, on
  any object, changes the window of the peak detector.
\<close>

theorem search_window_has_no_setter:
  "\<not> (\<exists>self c. fmp_max_freq (radar_find_max_peak_c_0 (after (call self c)))
         \<noteq> fmp_max_freq (radar_find_max_peak_c_0 self))"
  by (simp add: call_keeps_search_window)


section \<open>The self-mixer under a swap of its inputs\<close>

text \<open>
  Claim C7. For two complex frames \<open>A\<close> and \<open>B\<close> of the same length, the self-mixer
  applied to \<open>(A, B)\<close> and to \<open>(B, A)\<close> returns frames of that length, and at every index
  the first is the complex conjugate of the second.
\<close>

theorem self_mixer_swap_is_conjugate:
  assumes "length A = length B"
  shows "\<exists>ab ba. multiply_conjugate_cc A B = Inr ab \<and> multiply_conjugate_cc B A = Inr ba
           \<and> length ab = length A \<and> length ba = length A
           \<and> (\<forall>i < length A. ab ! i = A ! i * cnj (B ! i) \<and> ab ! i = cnj (ba ! i))"
  using assms by (simp add: multiply_conjugate_cc_def)

theorem self_mixer_swap_is_conjugate_witness:
  "multiply_conjugate_cc [Complex 1 2, Complex 0 (- 1)] [Complex 3 1, Complex 2 2]
     = Inr [Complex 5 5, Complex (- 2) (- 2)]
   \<and> multiply_conjugate_cc [Complex 3 1, Complex 2 2] [Complex 1 2, Complex 0 (- 1)]
     = Inr [Complex 5 (- 5), Complex (- 2) 2]
   \<and> [Complex 5 5, Complex (- 2) (- 2)] ! 0 = cnj ([Complex 5 (- 5), Complex (- 2) 2] ! 0)
   \<and> [Complex 5 5, Complex (- 2) (- 2)] ! 1 = cnj ([Complex 5 (- 5), Complex (- 2) 2] ! 1)"
proof -
  let ?A = "[Complex 1 2, Complex 0 (- 1)]" and ?B = "[Complex 3 1, Complex 2 2]"
  have len: "length ?A = length ?B"
    by simp
  have ab: "multiply_conjugate_cc ?A ?B = Inr [Complex 5 5, Complex (- 2) (- 2)]"
    and ba: "multiply_conjugate_cc ?B ?A = Inr [Complex 5 (- 5), Complex (- 2) 2]"
    by (simp_all add: multiply_conjugate_cc_def complex_eq_iff)
  from self_mixer_swap_is_conjugate [OF len] ab ba
  have "\<forall>i < length ?A. [Complex 5 5, Complex (- 2) (- 2)] ! i
          = cnj ([Complex 5 (- 5), Complex (- 2) 2] ! i)"
    by auto
  then have "[Complex 5 5, Complex (- 2) (- 2)] ! 0 = cnj ([Complex 5 (- 5), Complex (- 2) 2] ! 0)"
    and "[Complex 5 5, Complex (- 2) (- 2)] ! 1 = cnj ([Complex 5 (- 5), Complex (- 2) 2] ! 1)"
    by (simp_all add: complex_eq_iff)
  with ab ba show ?thesis
    by blast
qed


section \<open>What the flow graph rejects\<close>





section \<open>The two channels\<close>

text \<open>
  Claim C10. In a constructed flow graph both signal generators have the \<open>packet_len\<close>,
  \<open>samp_rate\<close> and \<open>amplitude\<close> of the object and differ in the tone only, \<open>freq[0]\<close> for
  one and \<open>freq[1]\<close> for the other; both resamplers decimate by \<open>decim_fac\<close>; both
  length-scaling blocks have the scalar \<open>1 / decim_fac\<close>; both FFT stages have the size
  \<open>packet_len // decim_fac\<close>. \<open>set_decim_fac\<close>, on any object \<open>t\<close>, keeps the two scalars
  equal when they were, and sets both to \<open>1 / v\<close> when it returns.
\<close>

theorem channels_are_symmetric:
  assumes "construct c = Inr self"
    and "scalar (blocks_tagged_stream_multiply_length_0 t)
       = scalar (blocks_tagged_stream_multiply_length_0_0 t)"
  shows "sg_packet_len (radar_signal_generator_cw_c_0 self) = packet_len self
       \<and> sg_packet_len (radar_signal_generator_cw_c_0_0 self) = packet_len self
       \<and> sg_samp_rate (radar_signal_generator_cw_c_0 self) = samp_rate self
       \<and> sg_samp_rate (radar_signal_generator_cw_c_0_0 self) = samp_rate self
       \<and> sg_amplitude (radar_signal_generator_cw_c_0 self) = amplitude self
       \<and> sg_amplitude (radar_signal_generator_cw_c_0_0 self) = amplitude self
       \<and> sg_frequency (radar_signal_generator_cw_c_0 self) = [fst (freq self)]
       \<and> sg_frequency (radar_signal_generator_cw_c_0_0 self) = [snd (freq self)]
       \<and> rational_resampler_xxx_0 self = \<lparr>interpolation = 1, decimation = decim_fac self\<rparr>
       \<and> rational_resampler_xxx_0_0 self = \<lparr>interpolation = 1, decimation = decim_fac self\<rparr>
       \<and> decim_fac self \<noteq> 0
       \<and> scalar (blocks_tagged_stream_multiply_length_0 self) = 1 / decim_fac self
       \<and> scalar (blocks_tagged_stream_multiply_length_0_0 self) = 1 / decim_fac self
       \<and> fft_packet_len (radar_ts_fft_cc_0 self) = \<lfloor>packet_len self / decim_fac self\<rfloor>
       \<and> fft_packet_len (radar_ts_fft_cc_0_0 self) = \<lfloor>packet_len self / decim_fac self\<rfloor>
       \<and> scalar (blocks_tagged_stream_multiply_length_0 (after (set_decim_fac t v)))
         = scalar (blocks_tagged_stream_multiply_length_0_0 (after (set_decim_fac t v)))
       \<and> (case set_decim_fac t v of
            Inl es \<Rightarrow> v = 0
          | Inr t1 \<Rightarrow>
              scalar (blocks_tagged_stream_multiply_length_0 t1) = 1 / v
              \<and> scalar (blocks_tagged_stream_multiply_length_0_0 t1) = 1 / v)"
proof -
  have built: "sg_packet_len (radar_signal_generator_cw_c_0 self) = packet_len self
       \<and> sg_packet_len (radar_signal_generator_cw_c_0_0 self) = packet_len self
       \<and> sg_samp_rate (radar_signal_generator_cw_c_0 self) = samp_rate self
       \<and> sg_samp_rate (radar_signal_generator_cw_c_0_0 self) = samp_rate self
       \<and> sg_amplitude (radar_signal_generator_cw_c_0 self) = amplitude self
       \<and> sg_amplitude (radar_signal_generator_cw_c_0_0 self) = amplitude self
       \<and> sg_frequency (radar_signal_generator_cw_c_0 self) = [fst (freq self)]
       \<and> sg_frequency (radar_signal_generator_cw_c_0_0 self) = [snd (freq self)]
       \<and> rational_resampler_xxx_0 self = \<lparr>interpolation = 1, decimation = decim_fac self\<rparr>
       \<and> rational_resampler_xxx_0_0 self = \<lparr>interpolation = 1, decimation = decim_fac self\<rparr>
       \<and> decim_fac self \<noteq> 0
       \<and> scalar (blocks_tagged_stream_multiply_length_0 self) = 1 / decim_fac self
       \<and> scalar (blocks_tagged_stream_multiply_length_0_0 self) = 1 / decim_fac self
       \<and> fft_packet_len (radar_ts_fft_cc_0 self) = \<lfloor>packet_len self / decim_fac self\<rfloor>
       \<and> fft_packet_len (radar_ts_fft_cc_0_0 self) = \<lfloor>packet_len self / decim_fac self\<rfloor>"
    using construct_blocks(1-8) [OF assms(1)] construct_variables(1-6) [OF assms(1)]
      construct_nonzero(5) [OF assms(1)]
    by simp
  have kept: "scalar (blocks_tagged_stream_multiply_length_0 (after (set_decim_fac t v)))
         = scalar (blocks_tagged_stream_multiply_length_0_0 (after (set_decim_fac t v)))"
    using assms(2) by (simp add: set_decim_fac_eq after_def)
  have both: "(case set_decim_fac t v of
            Inl es \<Rightarrow> v = 0
          | Inr t1 \<Rightarrow>
              scalar (blocks_tagged_stream_multiply_length_0 t1) = 1 / v
              \<and> scalar (blocks_tagged_stream_multiply_length_0_0 t1) = 1 / v)"
    by (simp add: set_decim_fac_eq)
  show ?thesis
    using built kept both by blast
qed

theorem channels_are_symmetric_witness:
  "sg_packet_len (radar_signal_generator_cw_c_0 (projr usrp_echotimer_dual_cw_rcs)) = 2097152
   \<and> sg_packet_len (radar_signal_generator_cw_c_0_0 (projr usrp_echotimer_dual_cw_rcs)) = 2097152
   \<and> sg_frequency (radar_signal_generator_cw_c_0 (projr usrp_echotimer_dual_cw_rcs)) = [- 3000000]
   \<and> sg_frequency (radar_signal_generator_cw_c_0_0 (projr usrp_echotimer_dual_cw_rcs)) = [3000000]
   \<and> decimation (rational_resampler_xxx_0 (projr usrp_echotimer_dual_cw_rcs)) = 128
   \<and> decimation (rational_resampler_xxx_0_0 (projr usrp_echotimer_dual_cw_rcs)) = 128
   \<and> scalar (blocks_tagged_stream_multiply_length_0 (projr usrp_echotimer_dual_cw_rcs)) = 1 / 128
   \<and> scalar (blocks_tagged_stream_multiply_length_0_0 (projr usrp_echotimer_dual_cw_rcs)) = 1 / 128
   \<and> fft_packet_len (radar_ts_fft_cc_0 (projr usrp_echotimer_dual_cw_rcs)) = 16384
   \<and> fft_packet_len (radar_ts_fft_cc_0_0 (projr usrp_echotimer_dual_cw_rcs)) = 16384
   \<and> scalar (blocks_tagged_stream_multiply_length_0
        (after (set_decim_fac (projr usrp_echotimer_dual_cw_rcs) 64))) = 1 / 64
   \<and> scalar (blocks_tagged_stream_multiply_length_0_0
        (after (set_decim_fac (projr usrp_echotimer_dual_cw_rcs) 64))) = 1 / 64"
proof -
  let ?tb = "projr usrp_echotimer_dual_cw_rcs"
  have eq: "scalar (blocks_tagged_stream_multiply_length_0 ?tb)
      = scalar (blocks_tagged_stream_multiply_length_0_0 ?tb)"
    by (simp add: default_object)
  have vars: "packet_len ?tb = 2097152" "freq ?tb = (- 3000000, 3000000)" "decim_fac ?tb = 128"
    by (simp_all add: default_object)
  note t = channels_are_symmetric [OF default_constructs eq, of 64]
  have a: "scalar (blocks_tagged_stream_multiply_length_0 (after (set_decim_fac ?tb 64))) = 1 / 64
     \<and> scalar (blocks_tagged_stream_multiply_length_0_0 (after (set_decim_fac ?tb 64))) = 1 / 64"
    using t by (simp add: set_decim_fac_eq after_def)
  show ?thesis
    using t vars a by simp
qed


end
